theory Spec2Isabelle
  imports Main
begin

section \<open>Data model\<close>

text \<open>
  The persisted documents. A User is what \<^verbatim>\<open>User.create\<close> is given in
  \<^verbatim>\<open>AuthController.signUp\<close> and \<^verbatim>\<open>AuthController.googleSignIn\<close>, plus the
  identifier the database assigns. The Google path creates a user without a \<^verbatim>\<open>password\<close>
  and with a \<^verbatim>\<open>profileImageURL\<close>, the local path the other way round, so both fields are
  optional. \<^verbatim>\<open>refreshTokens\<close> is the ordered allowlist.
\<close>

record user =
  uid :: nat
  firstName :: string
  lastName :: string
  isUsernameSet :: bool
  username :: string
  email :: string
  isPasswordSet :: bool
  password :: "string option"
  verified :: bool
  profileImageURL :: "string option"
  refreshTokens :: "string list"
  apiKey :: string

record social =
  social_name :: string
  socialId :: string
  userId :: nat

record todo =
  todo_id :: string
  todo_username :: string
  todo_name :: string
  todo_dueDate :: string
  todo_completed :: bool

text \<open>The three collections, each in the order of insertion.\<close>

record db =
  users :: "user list"
  socials :: "social list"
  todos :: "todo list"

text \<open>The claims a token carries, and the pair \<^verbatim>\<open>generateUserTokens\<close> returns.\<close>

record claims =
  c_firstName :: string
  c_lastName :: string
  c_username :: string
  c_email :: string

record tokens =
  accessToken :: string
  refreshToken :: string

text \<open>The payload of a verified Google id token, with the fields \<^verbatim>\<open>googleSignIn\<close> reads.\<close>

record google_payload =
  given_name :: string
  family_name :: string
  sub :: string
  g_email :: string
  picture :: "string option"

text \<open>
  The Express request, with the parts the handlers read. A field of the body, a cookie or a
  header that is absent reads as the empty string: \<^verbatim>\<open>undefined\<close> and \<^verbatim>\<open>''\<close> are both
  falsy, which is all that \<^verbatim>\<open>||\<close>, \<^verbatim>\<open>!\<close> and the default \<^verbatim>\<open>lastName = ''\<close> look at.
  \<^verbatim>\<open>rq_user\<close> is \<^verbatim>\<open>req.user\<close>, the acting identity the authentication middleware
  attaches; \<^verbatim>\<open>rq_csrf\<close> is what \<^verbatim>\<open>req.csrfToken()\<close> returns.
\<close>

record request =
  p_username :: string
  p_todoId :: string
  rq_user :: "claims option"
  rq_csrf :: string
  signed_rft :: string
  cookie_rft :: string
  header_X_RFT :: string
  header_x_rft :: string
  body_rft :: string
  body_firstName :: string
  body_lastName :: string
  body_username :: string
  body_email :: string
  body_password :: string
  body_userIdentifier :: string
  body_googleIdToken :: string

text \<open>
  Errors as values. The first six are the named errors the code creates; \<open>Fault\<close> is any
  other exception that reaches \<^verbatim>\<open>next(err)\<close> (a \<^verbatim>\<open>TypeError\<close> on a null document, an
  error of a library), with its name.
\<close>

datatype error =
    ValidationError string "(string \<times> string) list"
  | AlreadyExistsError string
  | NotFoundError string
  | BadRequestError string
  | AuthorizationError string
  | RefreshTokenError string
  | Fault string

text \<open>JSON values of a response body; \<^verbatim>\<open>res.json\<close> leaves out a key whose value is undefined.\<close>

datatype json =
    JStr string
  | JBool bool
  | JArr "json list"
  | JObj "(string \<times> json) list"

record response =
  status :: nat
  body :: "(string \<times> json) list"

datatype cookie_op = SetCookie string string | ClearCookie string

text \<open>
  What a handler leaves behind: the store, the cookie operations on the response, and either
  the error handed to \<^verbatim>\<open>next\<close> (\<open>Threw\<close>), the response sent (\<open>Replied\<close>), or
  neither (\<open>Hung\<close>) when the handler returns without answering.
\<close>

datatype reply = Threw error | Replied response | Hung

record outcome =
  store :: db
  cookie_ops :: "cookie_op list"
  reply :: reply

text \<open>A gate either calls \<^verbatim>\<open>next()\<close> or \<^verbatim>\<open>next(err)\<close>.\<close>

datatype gate = Continue | Reject error

section \<open>External collaborators\<close>

datatype token_kind = AccessT | RefreshT | ApiKeyT

datatype purpose = SignUpP | SignInP

text \<open>
  The libraries and the utilities of \<^verbatim>\<open>@/utils\<close> the handlers call, none of which is
  part of the sources at hand, are parameters:
  \<^item> \<open>validate_*\<close>: \<^verbatim>\<open>CustomValidator.*\<close>, the message for a field that fails, \<open>None\<close>
    for any falsy result;
  \<^item> \<open>sign\<close>: the signing primitive behind \<^verbatim>\<open>createToken\<close> and \<^verbatim>\<open>generateUserTokens\<close>;
  \<^item> \<open>jwt_verify\<close>: \<^verbatim>\<open>jwt.verify(token, JWT_REFRESH_SECRET)\<close>, the payload or the name
    of the error thrown (expired, malformed, wrong signature);
  \<^item> \<open>compareSync\<close>: bcryptjs on the presented password and the stored field, \<open>None\<close>
    when it throws;
  \<^item> \<open>hashPassword\<close>: the hashing the User model applies to a password it stores;
  \<^item> \<open>verifyIdToken\<close>: the Google client, the name of the error thrown or the result of
    \<^verbatim>\<open>getPayload()\<close>, which may be undefined;
  \<^item> \<open>objectId\<close>: \<^verbatim>\<open>ObjectId(todoId)\<close>, \<open>None\<close> when the string is not an identifier
    and the constructor throws;
  \<^item> \<open>pick\<close>: the database's choice among the documents that match a query with no
    sort, as an index into them (taken modulo their number).
  An environment stands for the collaborators during one request: the signer of a later
  request, issuing at a later instant, is another function.
\<close>

record env =
  validate_firstName :: "string \<Rightarrow> string option"
  validate_username :: "string \<Rightarrow> string option"
  validate_email :: "string \<Rightarrow> string option"
  validate_password :: "string \<Rightarrow> string option"
  validate_userIdentifier :: "string \<Rightarrow> string option"
  sign :: "token_kind \<Rightarrow> claims \<Rightarrow> string"
  jwt_verify :: "string \<Rightarrow> string + claims"
  compareSync :: "string \<Rightarrow> string option \<Rightarrow> bool option"
  hashPassword :: "string \<Rightarrow> string"
  verifyIdToken :: "string \<Rightarrow> string + google_payload option"
  objectId :: "string \<Rightarrow> string option"
  pick :: "user list \<Rightarrow> nat"

section \<open>Store operations\<close>

text \<open>
  \<^verbatim>\<open>Model.findOne\<close> returns a document that matches, \<open>None\<close> for null; here the first
  in the collection. \<^verbatim>\<open>Model.create\<close> appends the document; the identifier the database
  gives it is modelled as its position in the collection.
\<close>

definition findOne :: "('a \<Rightarrow> bool) \<Rightarrow> 'a list \<Rightarrow> 'a option" where
  "findOne P xs = find P xs"

text \<open>
  The query of \<^verbatim>\<open>signUp\<close>, \<^verbatim>\<open>{ $or: [{ username }, { email }] }\<close>, asks for two values
  in two fields: one stored user can have the username and another the email, and the query
  has no sort, so which of the two \<^verbatim>\<open>findOne\<close> returns is the database's choice. The
  choice is a parameter: an index into the matching documents.
\<close>

definition findOne_among :: "('a list \<Rightarrow> nat) \<Rightarrow> ('a \<Rightarrow> bool) \<Rightarrow> 'a list \<Rightarrow> 'a option" where
  "findOne_among ch P xs =
     (let ms = filter P xs
      in if ms = [] then None else Some (ms ! (ch ms mod length ms)))"

text \<open>\<^verbatim>\<open>User.updateOne({ username }, { refreshTokens })\<close>: the first match gets the new list.\<close>

fun updateOne_refreshTokens :: "string \<Rightarrow> string list \<Rightarrow> user list \<Rightarrow> user list" where
  "updateOne_refreshTokens n rts [] = []"
| "updateOne_refreshTokens n rts (u # us) =
     (if username u = n then u\<lparr>refreshTokens := rts\<rparr> # us
      else u # updateOne_refreshTokens n rts us)"

text \<open>\<^verbatim>\<open>a || b\<close> on strings: the first operand unless it is falsy.\<close>

definition js_or :: "string \<Rightarrow> string \<Rightarrow> string" where
  "js_or a b = (if a = [] then b else a)"

definition failed :: "db \<Rightarrow> error \<Rightarrow> outcome" where
  "failed d e = \<lparr>store = d, cookie_ops = [], reply = Threw e\<rparr>"

section \<open>The authorization middleware\<close>

text \<open>\<^verbatim>\<open>Authorize.authorizeUser\<close> (src/middlewares/authorize.ts).\<close>

definition authorizeUser :: "db \<Rightarrow> request \<Rightarrow> gate" where
  "authorizeUser d rq =
     (case findOne (\<lambda>u. username u = p_username rq) (users d) of
        None \<Rightarrow> Reject (AuthorizationError ''You are unauthorized!'')
      | Some foundUser \<Rightarrow> Continue)"

text \<open>
  \<^verbatim>\<open>Authorize.authorizeTodo\<close>. The document is read without a null check: when
  \<^verbatim>\<open>findOne\<close> returns null, \<^verbatim>\<open>foundTodo.username\<close> throws a \<^verbatim>\<open>TypeError\<close>, which the
  \<^verbatim>\<open>catch\<close> hands to \<^verbatim>\<open>next\<close>.
\<close>

definition authorizeTodo :: "env \<Rightarrow> db \<Rightarrow> request \<Rightarrow> gate" where
  "authorizeTodo ev d rq =
     (case objectId ev (p_todoId rq) of
        None \<Rightarrow> Reject (Fault ''Error'')
      | Some oid \<Rightarrow>
          (case findOne (\<lambda>t. todo_id t = oid) (todos d) of
             None \<Rightarrow> Reject (Fault ''TypeError'')
           | Some foundTodo \<Rightarrow>
               if todo_username foundTodo \<noteq> p_username rq
               then Reject (AuthorizationError ''You are not authorized to do this!'')
               else Continue))"

section \<open>Token service\<close>

text \<open>\<^verbatim>\<open>createToken('apiKey', { username, email })\<close>: the signing primitive on two claims.\<close>

definition createToken_apiKey :: "env \<Rightarrow> string \<Rightarrow> string \<Rightarrow> string" where
  "createToken_apiKey ev un em =
     sign ev ApiKeyT \<lparr>c_firstName = [], c_lastName = [], c_username = un, c_email = em\<rparr>"

text \<open>
  Modelled from the spec: \<^verbatim>\<open>generateUserTokens\<close> of \<^verbatim>\<open>@/utils\<close> is not among the
  sources. The spec's \<open>issue(identityClaims, purpose)\<close> mints the pair with the same
  signing for both purposes; the purpose decides the bookkeeping. On sign-up the caller
  stores the refresh token itself (\<^verbatim>\<open>refreshTokens: [newUserTokens.refreshToken]\<close>), so the
  utility stores nothing; on sign-in no handler writes the allowlist, so it is the utility
  that appends the refresh token to the allowlist of the user named in the claims.
\<close>

definition pushRefreshToken :: "string \<Rightarrow> string \<Rightarrow> user list \<Rightarrow> user list" where
  "pushRefreshToken n t us =
     (case findOne (\<lambda>u. username u = n) us of
        None \<Rightarrow> us
      | Some u \<Rightarrow> updateOne_refreshTokens n (refreshTokens u @ [t]) us)"

definition generateUserTokens :: "env \<Rightarrow> db \<Rightarrow> claims \<Rightarrow> purpose \<Rightarrow> db \<times> tokens" where
  "generateUserTokens ev d cl pu =
     (let pair = \<lparr>accessToken = sign ev AccessT cl, refreshToken = sign ev RefreshT cl\<rparr>
      in (case pu of
            SignUpP \<Rightarrow> d
          | SignInP \<Rightarrow> d\<lparr>users := pushRefreshToken (c_username cl) (refreshToken pair) (users d)\<rparr>,
          pair))"

definition user_claims :: "user \<Rightarrow> claims" where
  "user_claims u =
     \<lparr>c_firstName = firstName u, c_lastName = lastName u,
      c_username = username u, c_email = email u\<rparr>"

text \<open>
  Modelled from the spec: \<^verbatim>\<open>handleRefreshToken\<close> of \<^verbatim>\<open>@/utils\<close> is not among the
  sources. The spec's \<open>rotate(presentedRefreshToken)\<close> fails with \<open>RefreshTokenError\<close>
  when the token fails verification, or the decoded identity no longer exists, or the token
  is not in that identity's allowlist; on success it removes the presented token, appends
  the newly minted refresh token and returns the new pair. Removal is by value, as in
  \<^verbatim>\<open>signOut\<close>. The messages are labels of the three cases; the spec gives none.

  The token appended is newly minted: it is none of the tokens the allowlist holds. What
  tells two tokens signed for the same claims apart is the instant of issue, which is part
  of what is signed but not of the claims the signer is given here; when the signer's string
  is one the allowlist holds already, the model writes the instant as a suffix that makes
  the token longer than every token held.
\<close>

definition newly_minted :: "string list \<Rightarrow> string \<Rightarrow> string" where
  "newly_minted held s =
     (if s \<in> set held
      then s @ replicate (Suc (foldr max (map length held) 0)) (CHR ''+'')
      else s)"

definition handleRefreshToken :: "env \<Rightarrow> db \<Rightarrow> string \<Rightarrow> db \<times> (error + tokens)" where
  "handleRefreshToken ev d t =
     (case jwt_verify ev t of
        Inl e \<Rightarrow> (d, Inl (RefreshTokenError ''verification failed''))
      | Inr cl \<Rightarrow>
          (case findOne (\<lambda>u. username u = c_username cl) (users d) of
             None \<Rightarrow> (d, Inl (RefreshTokenError ''identity not found''))
           | Some u \<Rightarrow>
               if t \<notin> set (refreshTokens u)
               then (d, Inl (RefreshTokenError ''token not in allowlist''))
               else
                 (let pair = \<lparr>accessToken = sign ev AccessT (user_claims u),
                              refreshToken = newly_minted (refreshTokens u)
                                               (sign ev RefreshT (user_claims u))\<rparr>;
                      updated = filter (\<lambda>r. r \<noteq> t) (refreshTokens u) @ [refreshToken pair]
                  in (d\<lparr>users := updateOne_refreshTokens (username u) updated (users d)\<rparr>,
                      Inr pair))))"

section \<open>The authentication controller\<close>

definition auth_cookies :: "tokens \<Rightarrow> string \<Rightarrow> cookie_op list" where
  "auth_cookies tk csrf =
     [SetCookie ''act'' (accessToken tk), SetCookie ''rft'' (refreshToken tk),
      SetCookie ''XSRF-TOKEN'' csrf]"

definition tokens_json :: "tokens \<Rightarrow> string \<Rightarrow> json" where
  "tokens_json tk csrf =
     JObj [(''accessToken'', JStr (accessToken tk)), (''refreshToken'', JStr (refreshToken tk)),
           (''csrfToken'', JStr csrf)]"

text \<open>A key whose value is undefined is not serialised.\<close>

definition opt_field :: "string \<Rightarrow> string option \<Rightarrow> (string \<times> json) list" where
  "opt_field k v = (case v of None \<Rightarrow> [] | Some s \<Rightarrow> [(k, JStr s)])"

text \<open>The loop over the validations: one entry per field whose validator gave a message.\<close>

fun errorMessages :: "(string \<times> string option) list \<Rightarrow> (string \<times> string) list" where
  "errorMessages [] = []"
| "errorMessages ((k, None) # r) = errorMessages r"
| "errorMessages ((k, Some m) # r) = (k, m) # errorMessages r"

text \<open>\<^verbatim>\<open>AuthController.refreshToken\<close>: a \<open>RefreshTokenError\<close> is passed on as an
  \<open>AuthorizationError\<close> with the same message.\<close>

definition refreshToken_handler :: "env \<Rightarrow> db \<Rightarrow> request \<Rightarrow> outcome" where
  "refreshToken_handler ev d rq =
     (let rft = js_or (signed_rft rq) (js_or (cookie_rft rq) (body_rft rq))
      in case handleRefreshToken ev d rft of
           (d1, Inl err) \<Rightarrow>
             (case err of
                RefreshTokenError m \<Rightarrow> failed d1 (AuthorizationError m)
              | _ \<Rightarrow> failed d1 err)
         | (d1, Inr newTokens) \<Rightarrow>
             \<lparr>store = d1, cookie_ops = auth_cookies newTokens (rq_csrf rq),
              reply = Replied \<lparr>status = 200,
                body = [(''tokens'', tokens_json newTokens (rq_csrf rq)),
                        (''message'', JStr ''Successfully refreshed token!'')]\<rparr>\<rparr>)"

text \<open>
  \<^verbatim>\<open>AuthController.signUp\<close>. \<^verbatim>\<open>findOne\<close> with \<^verbatim>\<open>$or\<close> returns one document that
  has the username or the email; the two comparisons that follow look at that document
  only. When neither holds the handler returns without answering.
\<close>

definition signUp :: "env \<Rightarrow> db \<Rightarrow> request \<Rightarrow> outcome" where
  "signUp ev d rq =
     (let fn = body_firstName rq; ln = body_lastName rq; un = body_username rq;
          em = body_email rq; pw = body_password rq;
          errs = errorMessages
                   [(''firstName'', validate_firstName ev fn),
                    (''username'', validate_username ev un),
                    (''email'', validate_email ev em),
                    (''password'', validate_password ev pw)]
      in if errs \<noteq> []
         then failed d (ValidationError
                  ''Failed to sign up, please correct user information!'' errs)
         else
           (case findOne_among (pick ev) (\<lambda>u. username u = un \<or> email u = em)
                   (users d) of
              Some existedUser \<Rightarrow>
                if username existedUser = un
                then failed d (AlreadyExistsError ''Username isn't available.'')
                else if email existedUser = em
                then failed d (AlreadyExistsError ''Email isn't available.'')
                else \<lparr>store = d, cookie_ops = [], reply = Hung\<rparr>
            | None \<Rightarrow>
                (case generateUserTokens ev d
                        \<lparr>c_firstName = fn, c_lastName = ln, c_username = un, c_email = em\<rparr>
                        SignUpP of
                   (d1, newUserTokens) \<Rightarrow>
                     (let newApiKey = createToken_apiKey ev un em;
                          newUser = \<lparr>uid = length (users d1), firstName = fn, lastName = ln,
                                     isUsernameSet = True, username = un, email = em,
                                     isPasswordSet = True,
                                     password = Some (hashPassword ev pw),
                                     verified = False, profileImageURL = None,
                                     refreshTokens = [refreshToken newUserTokens],
                                     apiKey = newApiKey\<rparr>
                      in \<lparr>store = d1\<lparr>users := users d1 @ [newUser]\<rparr>,
                          cookie_ops = auth_cookies newUserTokens (rq_csrf rq),
                          reply = Replied \<lparr>status = 201,
                            body = [(''user'', JObj
                                       [(''firstName'', JStr fn), (''lastName'', JStr ln),
                                        (''isUsernameSet'', JBool True),
                                        (''username'', JStr un), (''email'', JStr em),
                                        (''isPasswordSet'', JBool True),
                                        (''verified'', JBool False),
                                        (''apiKey'', JStr newApiKey)]),
                                    (''tokens'', tokens_json newUserTokens (rq_csrf rq)),
                                    (''message'', JStr ''Successfully signed up!'')]\<rparr>\<rparr>))))"

text \<open>
  \<^verbatim>\<open>AuthController.signIn\<close>. The tokens are generated as soon as the user is found, before
  \<^verbatim>\<open>compareSync\<close> is asked; the store the handler leaves is therefore the one
  \<^verbatim>\<open>generateUserTokens\<close> returned, on both branches.
\<close>

definition signIn :: "env \<Rightarrow> db \<Rightarrow> request \<Rightarrow> outcome" where
  "signIn ev d rq =
     (let userIdentifier = body_userIdentifier rq; pw = body_password rq;
          errs = errorMessages
                   [(''userIdentifier'', validate_userIdentifier ev userIdentifier),
                    (''password'', validate_password ev pw)]
      in if errs \<noteq> []
         then failed d (ValidationError
                  ''Failed to sign in, please correct user information!'' errs)
         else
           (case findOne (\<lambda>u. username u = userIdentifier \<or> email u = userIdentifier)
                   (users d) of
              None \<Rightarrow> failed d (NotFoundError ''User not found, please sign up first!'')
            | Some signInUser \<Rightarrow>
                (case generateUserTokens ev d (user_claims signInUser) SignInP of
                   (d1, tk) \<Rightarrow>
                     (case compareSync ev pw (password signInUser) of
                        None \<Rightarrow> failed d1 (Fault ''Error'')
                      | Some False \<Rightarrow>
                          failed d1 (BadRequestError ''Wrong username or password!'')
                      | Some True \<Rightarrow>
                          \<lparr>store = d1, cookie_ops = auth_cookies tk (rq_csrf rq),
                           reply = Replied \<lparr>status = 200,
                             body = [(''user'', JObj
                                        [(''firstName'', JStr (firstName signInUser)),
                                         (''lastName'', JStr (lastName signInUser)),
                                         (''username'', JStr (username signInUser)),
                                         (''email'', JStr (email signInUser)),
                                         (''apiKey'', JStr (apiKey signInUser))]),
                                     (''message'', JStr ''Successfully signed in!''),
                                     (''tokens'', tokens_json tk (rq_csrf rq))]\<rparr>\<rparr>))))"

text \<open>
  \<^verbatim>\<open>AuthController.googleSignIn\<close>. The username of the claims, of a created user and of the
  payload is the \<^verbatim>\<open>sub\<close> of the Google payload (\<^verbatim>\<open>sub: username\<close> in the destructuring).
\<close>

definition googleSignIn :: "env \<Rightarrow> db \<Rightarrow> request \<Rightarrow> outcome" where
  "googleSignIn ev d rq =
     (case verifyIdToken ev (body_googleIdToken rq) of
        Inl e \<Rightarrow> failed d (Fault e)
      | Inr None \<Rightarrow> failed d (Fault ''TypeError'')
      | Inr (Some p) \<Rightarrow>
          (let fn = given_name p; ln = family_name p; un = sub p; em = g_email p;
               profileImage = picture p; googleId = sub p;
               cl = \<lparr>c_firstName = fn, c_lastName = ln, c_username = un, c_email = em\<rparr>;
               existingUser = findOne (\<lambda>u. email u = g_email p) (users d);
               existingSocial =
                 findOne (\<lambda>s. social_name s = ''google'' \<and> socialId s = googleId) (socials d)
           in case existingUser of
                None \<Rightarrow>
                  (case generateUserTokens ev d cl SignUpP of
                     (d1, newUserTokens) \<Rightarrow>
                       (let newApiKey = createToken_apiKey ev un em;
                            newUser = \<lparr>uid = length (users d1), firstName = fn, lastName = ln,
                                       isUsernameSet = True, username = un, email = em,
                                       isPasswordSet = False, password = None,
                                       verified = False, profileImageURL = profileImage,
                                       refreshTokens = [refreshToken newUserTokens],
                                       apiKey = newApiKey\<rparr>;
                            d2 = d1\<lparr>users := users d1 @ [newUser]\<rparr>;
                            d3 = d2\<lparr>socials := socials d2 @
                                   [\<lparr>social_name = ''google'', socialId = googleId,
                                     userId = uid newUser\<rparr>]\<rparr>
                        in \<lparr>store = d3,
                            cookie_ops = auth_cookies newUserTokens (rq_csrf rq),
                            reply = Replied \<lparr>status = 201,
                              body = [(''user'', JObj
                                         ([(''firstName'', JStr fn), (''lastName'', JStr ln),
                                           (''isUsernameSet'', JBool True),
                                           (''username'', JStr un), (''email'', JStr em),
                                           (''isPasswordSet'', JBool False),
                                           (''verified'', JBool False),
                                           (''apiKey'', JStr newApiKey)]
                                          @ opt_field ''profileImageURL'' profileImage)),
                                      (''tokens'', tokens_json newUserTokens (rq_csrf rq)),
                                      (''message'', JStr ''Successfully signed up!'')]\<rparr>\<rparr>))
              | Some eu \<Rightarrow>
                  (let d1 = (if existingSocial = None
                             then d\<lparr>socials := socials d @
                                    [\<lparr>social_name = ''google'', socialId = googleId,
                                      userId = uid eu\<rparr>]\<rparr>
                             else d)
                   in case generateUserTokens ev d1 cl SignInP of
                        (d2, tk) \<Rightarrow>
                          \<lparr>store = d2, cookie_ops = auth_cookies tk (rq_csrf rq),
                           reply = Replied \<lparr>status = 200,
                             body = [(''user'', JObj
                                        ([(''firstName'', JStr fn), (''lastName'', JStr ln),
                                          (''isUsernameSet'', JBool (isUsernameSet eu)),
                                          (''username'', JStr un), (''email'', JStr em),
                                          (''isPasswordSet'', JBool (isPasswordSet eu)),
                                          (''verified'', JBool (verified eu)),
                                          (''apiKey'', JStr (apiKey eu))]
                                         @ opt_field ''profileImageURL'' profileImage)),
                                     (''message'', JStr ''Successfully signed in!''),
                                     (''tokens'', tokens_json tk (rq_csrf rq))]\<rparr>\<rparr>)))"

text \<open>
  \<^verbatim>\<open>AuthController.signOut\<close>. With a token, the username comes from \<^verbatim>\<open>jwt.verify\<close>, which
  throws on a token that is expired or does not verify; the user document is read without a
  null check.
\<close>

definition clear_all :: "string \<Rightarrow> string \<Rightarrow> cookie_op list" where
  "clear_all a b =
     [ClearCookie a, ClearCookie b, ClearCookie ''_csrf'', ClearCookie ''XSRF-TOKEN'']"

definition signed_out :: response where
  "signed_out = \<lparr>status = 200, body = [(''message'', JStr ''Successfully signed out!'')]\<rparr>"

definition receivedRefreshToken :: "request \<Rightarrow> string" where
  "receivedRefreshToken rq =
     js_or (signed_rft rq) (js_or (cookie_rft rq)
       (js_or (header_X_RFT rq) (js_or (header_x_rft rq) (body_rft rq))))"

definition signOut :: "env \<Rightarrow> db \<Rightarrow> request \<Rightarrow> outcome" where
  "signOut ev d rq =
     (let t = receivedRefreshToken rq
      in if t = []
         then \<lparr>store = d, cookie_ops = clear_all ''rft'' ''act'', reply = Replied signed_out\<rparr>
         else
           (case jwt_verify ev t of
              Inl e \<Rightarrow> failed d (Fault e)
            | Inr cl \<Rightarrow>
                (case findOne (\<lambda>u. username u = c_username cl) (users d) of
                   None \<Rightarrow> failed d (Fault ''TypeError'')
                 | Some foundUser \<Rightarrow>
                     (let updatedRefreshTokens =
                            filter (\<lambda>r. r \<noteq> t) (refreshTokens foundUser)
                      in \<lparr>store = d\<lparr>users := updateOne_refreshTokens (c_username cl)
                                               updatedRefreshTokens (users d)\<rparr>,
                          cookie_ops = clear_all ''act'' ''rft'',
                          reply = Replied signed_out\<rparr>))))"



section \<open>Response payloads\<close>





section \<open>A concrete environment and store\<close>

text \<open>
  The examples below run the handlers in one environment. Its validators reject exactly the
  empty field, the least any validator of the spec (non-empty first name, password of a
  minimum strength) does. Its signer is the signer of one instant, a function of the kind
  and the claims; verification knows four refresh tokens, one of them expired. An
  identifier is 24 hexadecimal digits, read without regard to case, or any 12 characters,
  read as 12 bytes. Among several matching documents the first is chosen.
\<close>

definition hex_digits :: string where
  "hex_digits = ''0123456789abcdef''"

definition lower_hex :: "char \<Rightarrow> char" where
  "lower_hex c =
     (if c = CHR ''A'' then CHR ''a'' else if c = CHR ''B'' then CHR ''b''
      else if c = CHR ''C'' then CHR ''c'' else if c = CHR ''D'' then CHR ''d''
      else if c = CHR ''E'' then CHR ''e'' else if c = CHR ''F'' then CHR ''f'' else c)"

definition hex_of_byte :: "char \<Rightarrow> string" where
  "hex_of_byte c =
     [hex_digits ! (of_char c div 16), hex_digits ! (of_char c mod 16)]"

definition demo_objectId :: "string \<Rightarrow> string option" where
  "demo_objectId s =
     (if length s = 24 \<and> list_all (\<lambda>c. lower_hex c \<in> set hex_digits) s
      then Some (map lower_hex s)
      else if length s = 12 then Some (concat (map hex_of_byte s))
      else None)"

definition required :: "string \<Rightarrow> string \<Rightarrow> string option" where
  "required label s = (if s = [] then Some (label @ '' cannot be empty!'') else None)"

definition named :: "string \<Rightarrow> claims" where
  "named n = \<lparr>c_firstName = [], c_lastName = [], c_username = n, c_email = []\<rparr>"

definition demo_verify :: "string \<Rightarrow> string + claims" where
  "demo_verify t =
     (if t = ''rft.johndoe'' \<or> t = ''rft.johndoe.phone'' then Inr (named ''johndoe'')
      else if t = ''rft.janedoe'' then Inr (named ''janedoe'')
      else if t = ''rft.johndoe.old'' then Inl ''TokenExpiredError''
      else Inl ''JsonWebTokenError'')"

definition demo_sign :: "token_kind \<Rightarrow> claims \<Rightarrow> string" where
  "demo_sign k cl =
     (case k of AccessT \<Rightarrow> ''act.'' | RefreshT \<Rightarrow> ''rft.'' | ApiKeyT \<Rightarrow> ''key.'') @ c_username cl"

definition demo_google :: google_payload where
  "demo_google =
     \<lparr>given_name = ''Ann'', family_name = ''Lee'', sub = ''1100223344'',
      g_email = ''ann@lee.com'', picture = Some ''https://img/ann.png''\<rparr>"

definition demo_env :: env where
  "demo_env =
     \<lparr>validate_firstName = required ''First name'',
      validate_username = required ''Username'',
      validate_email = required ''Email'',
      validate_password = required ''Password'',
      validate_userIdentifier = required ''Username or email'',
      sign = demo_sign,
      jwt_verify = demo_verify,
      compareSync = (\<lambda>pw h. case h of None \<Rightarrow> None | Some x \<Rightarrow> Some (x = ''hash.'' @ pw)),
      hashPassword = (\<lambda>pw. ''hash.'' @ pw),
      verifyIdToken = (\<lambda>t. if t = ''google-id-token'' then Inr (Some demo_google)
                            else Inl ''Error''),
      objectId = demo_objectId,
      pick = (\<lambda>ms. 0)\<rparr>"

definition johndoe :: user where
  "johndoe =
     \<lparr>uid = 0, firstName = ''John'', lastName = ''Doe'', isUsernameSet = True,
      username = ''johndoe'', email = ''john@doe.com'', isPasswordSet = True,
      password = Some ''hash.johndoe'', verified = False, profileImageURL = None,
      refreshTokens = [''rft.johndoe.old'', ''rft.johndoe'', ''rft.johndoe.phone''],
      apiKey = ''key.johndoe''\<rparr>"

definition janedoe :: user where
  "janedoe =
     \<lparr>uid = 1, firstName = ''Jane'', lastName = ''Doe'', isUsernameSet = True,
      username = ''janedoe'', email = ''jane@doe.com'', isPasswordSet = True,
      password = Some ''hash.janedoe'', verified = False, profileImageURL = None,
      refreshTokens = [], apiKey = ''key.janedoe''\<rparr>"

definition demo_todo :: todo where
  "demo_todo =
     \<lparr>todo_id = ''5f0000000000000000000001'', todo_username = ''johndoe'',
      todo_name = ''Install MySQL'', todo_dueDate = ''2020-07-01'', todo_completed = False\<rparr>"

definition demo_db :: db where
  "demo_db = \<lparr>users = [johndoe, janedoe], socials = [], todos = [demo_todo]\<rparr>"

text \<open>A store in which \<open>johndoe\<close> has one session, on the phone.\<close>

definition phone_db :: db where
  "phone_db =
     \<lparr>users = [johndoe\<lparr>refreshTokens := [''rft.johndoe.phone'']\<rparr>, janedoe],
      socials = [], todos = []\<rparr>"


definition rq0 :: request where
  "rq0 =
     \<lparr>p_username = [], p_todoId = [], rq_user = None, rq_csrf = ''csrf'',
      signed_rft = [], cookie_rft = [], header_X_RFT = [], header_x_rft = [], body_rft = [],
      body_firstName = [], body_lastName = [], body_username = [], body_email = [],
      body_password = [], body_userIdentifier = [], body_googleIdToken = []\<rparr>"

lemmas demo_defs =
  demo_env_def demo_db_def johndoe_def janedoe_def demo_todo_def rq0_def demo_verify_def
  demo_sign_def demo_google_def required_def named_def demo_objectId_def hex_digits_def
  lower_hex_def hex_of_byte_def phone_db_def

section \<open>Facts about the store operations\<close>

lemma findOne_Some_holds: "findOne P xs = Some x \<Longrightarrow> P x \<and> x \<in> set xs"
  unfolding findOne_def by (induction xs) (auto split: if_splits)

lemma findOne_None_iff: "findOne P xs = None \<longleftrightarrow> (\<forall>x\<in>set xs. \<not> P x)"
  unfolding findOne_def by (auto simp: find_None_iff)

lemma findOne_exists: "\<exists>x\<in>set xs. P x \<Longrightarrow> \<exists>y. findOne P xs = Some y"
  using findOne_None_iff [of P xs] by (cases "findOne P xs") auto

lemma findOne_updateOne:
  "findOne (\<lambda>u. username u = n) us = Some u \<Longrightarrow>
   findOne (\<lambda>u. username u = n) (updateOne_refreshTokens n rts us)
     = Some (u\<lparr>refreshTokens := rts\<rparr>)"
  unfolding findOne_def by (induction us) (auto split: if_splits)

lemma updateOne_splits:
  "findOne (\<lambda>u. username u = n) us = Some u \<Longrightarrow>
   \<exists>pre post. us = pre @ u # post \<and> (\<forall>v\<in>set pre. username v \<noteq> n) \<and>
     updateOne_refreshTokens n rts us = pre @ u\<lparr>refreshTokens := rts\<rparr> # post"
  unfolding findOne_def
proof (induction us)
  case Nil
  then show ?case by simp
next
  case (Cons a us)
  show ?case
  proof (cases "username a = n")
    case True
    with Cons.prems have "a = u" by simp
    with True have "a # us = [] @ u # us \<and> (\<forall>v\<in>set []. username v \<noteq> n) \<and>
        updateOne_refreshTokens n rts (a # us) = [] @ u\<lparr>refreshTokens := rts\<rparr> # us"
      by simp
    then show ?thesis by blast
  next
    case False
    with Cons.prems have "find (\<lambda>u. username u = n) us = Some u" by simp
    from Cons.IH [OF this] obtain pre post where
      h: "us = pre @ u # post" "\<forall>v\<in>set pre. username v \<noteq> n"
         "updateOne_refreshTokens n rts us = pre @ u\<lparr>refreshTokens := rts\<rparr> # post"
      by blast
    with False have "a # us = (a # pre) @ u # post \<and> (\<forall>v\<in>set (a # pre). username v \<noteq> n) \<and>
        updateOne_refreshTokens n rts (a # us) = (a # pre) @ u\<lparr>refreshTokens := rts\<rparr> # post"
      by simp
    then show ?thesis by blast
  qed
qed

lemma findOne_among_Some_holds:
  assumes "findOne_among ch P xs = Some x"
  shows "P x \<and> x \<in> set xs"
proof -
  let ?ms = "filter P xs"
  from assms have ne: "?ms \<noteq> []" and x: "x = ?ms ! (ch ?ms mod length ?ms)"
    by (auto simp: findOne_among_def Let_def split: if_splits)
  from ne have "ch ?ms mod length ?ms < length ?ms" by simp
  then have "?ms ! (ch ?ms mod length ?ms) \<in> set ?ms" by (rule nth_mem)
  with x show ?thesis by simp
qed

lemma findOne_among_None_iff: "findOne_among ch P xs = None \<longleftrightarrow> (\<forall>x\<in>set xs. \<not> P x)"
  by (auto simp: findOne_among_def Let_def filter_empty_conv)



section \<open>The authorization gates\<close>

text \<open>
  C5. The resource-owner existence gate lets the request continue whenever a User with the
  username of the path exists, whatever acting identity the request carries: the gate never
  reads \<^verbatim>\<open>req.user\<close>, so its answer is the same for every caller.
\<close>

theorem authorizeUser_ignores_acting_identity:
  assumes "\<exists>u\<in>set (users d). username u = p_username rq"
  shows "authorizeUser d (rq\<lparr>rq_user := acting\<rparr>) = Continue"
proof -
  from assms obtain y where "findOne (\<lambda>u. username u = p_username rq) (users d) = Some y"
    using findOne_exists [of "users d" "\<lambda>u. username u = p_username rq"] by blast
  then show ?thesis by (simp add: authorizeUser_def)
qed

theorem authorizeUser_ignores_acting_identity_witness:
  "(\<exists>u\<in>set (users demo_db). username u = p_username (rq0\<lparr>p_username := ''johndoe''\<rparr>)) \<and>
   authorizeUser demo_db
     (rq0\<lparr>p_username := ''johndoe'', rq_user := Some (named ''janedoe'')\<rparr>) = Continue"
proof -
  have h: "\<exists>u\<in>set (users demo_db). username u = p_username (rq0\<lparr>p_username := ''johndoe''\<rparr>)"
    by (simp add: demo_defs)
  show ?thesis
    using h authorizeUser_ignores_acting_identity
              [OF h, of "Some (named ''janedoe'')"]
    by simp
qed

text \<open>
  C4. The todo-ownership gate is claimed to fail with \<open>AuthorizationError\<close> also when no
  Todo with the identifier exists. Here the path names a well-formed identifier that no
  stored Todo has: \<^verbatim>\<open>findOne\<close> returns null, reading \<^verbatim>\<open>foundTodo.username\<close> throws, and what
  reaches \<^verbatim>\<open>next\<close> is a \<^verbatim>\<open>TypeError\<close>, not an \<open>AuthorizationError\<close>.
\<close>

theorem authorizeTodo_missing_todo_type_error:
  "authorizeTodo demo_env demo_db
     (rq0\<lparr>p_username := ''johndoe'', p_todoId := ''5f00000000000000000000ff''\<rparr>)
   = Reject (Fault ''TypeError'')"
  by (simp add: authorizeTodo_def findOne_def demo_defs)

text \<open>
  In general: with a well-formed identifier that no stored Todo has, the gate hands a
  \<^verbatim>\<open>TypeError\<close> to \<^verbatim>\<open>next\<close>; with a stored Todo it rejects with
  \<open>AuthorizationError\<close> exactly when the owner is not the username of the path.
\<close>

lemma authorizeTodo_absent:
  assumes "objectId ev (p_todoId rq) = Some oid" "\<forall>t\<in>set (todos d). todo_id t \<noteq> oid"
  shows "authorizeTodo ev d rq = Reject (Fault ''TypeError'')"
proof -
  from assms(2) have "findOne (\<lambda>t. todo_id t = oid) (todos d) = None"
    by (simp add: findOne_None_iff)
  with assms(1) show ?thesis by (simp add: authorizeTodo_def)
qed

lemma authorizeTodo_found:
  assumes "objectId ev (p_todoId rq) = Some oid"
      and "findOne (\<lambda>t. todo_id t = oid) (todos d) = Some t"
  shows "authorizeTodo ev d rq =
           (if todo_username t \<noteq> p_username rq
            then Reject (AuthorizationError ''You are not authorized to do this!'')
            else Continue)"
  using assms by (simp add: authorizeTodo_def)

section \<open>Sign-out\<close>

text \<open>
  C3, as stated, at an expired token. The claim is that sign-out succeeds with status 200
  for every request carrying a refresh token, also one that is expired. The handler calls
  \<^verbatim>\<open>jwt.verify\<close>, not a decoder: with the expired token of \<open>johndoe\<close> the verifier's error
  reaches \<^verbatim>\<open>next\<close>, no response is sent, no cookie is cleared and the token stays in the
  allowlist.
\<close>

theorem signOut_expired_token_fails:
  "reply (signOut demo_env demo_db (rq0\<lparr>signed_rft := ''rft.johndoe.old''\<rparr>))
     = Threw (Fault ''TokenExpiredError'') \<and>
   store (signOut demo_env demo_db (rq0\<lparr>signed_rft := ''rft.johndoe.old''\<rparr>)) = demo_db \<and>
   cookie_ops (signOut demo_env demo_db (rq0\<lparr>signed_rft := ''rft.johndoe.old''\<rparr>)) = [] \<and>
   ''rft.johndoe.old'' \<in> set (refreshTokens johndoe)"
  by (simp add: signOut_def receivedRefreshToken_def js_or_def failed_def
        demo_env_def demo_verify_def rq0_def johndoe_def)

text \<open>
  C3, amended. For every request carrying a refresh token that \<^verbatim>\<open>jwt.verify\<close> accepts and
  whose decoded username names a stored user, sign-out succeeds with status 200, the four
  cookies are cleared and the token is no longer in that user's allowlist. A token that
  fails verification makes sign-out fail with the verifier's error: nothing is revoked and
  no cookie is cleared.
\<close>

theorem signOut_verified_token:
  assumes tok: "receivedRefreshToken rq = t" "t \<noteq> []"
  shows "(jwt_verify ev t = Inr cl \<and>
          findOne (\<lambda>u. username u = c_username cl) (users d) = Some u \<longrightarrow>
            reply (signOut ev d rq) = Replied signed_out \<and> status signed_out = 200 \<and>
            cookie_ops (signOut ev d rq)
              = [ClearCookie ''act'', ClearCookie ''rft'', ClearCookie ''_csrf'',
                 ClearCookie ''XSRF-TOKEN''] \<and>
            (\<exists>u'. findOne (\<lambda>u. username u = c_username cl) (users (store (signOut ev d rq)))
                    = Some u' \<and> t \<notin> set (refreshTokens u'))) \<and>
         (jwt_verify ev t = Inl e \<longrightarrow>
            reply (signOut ev d rq) = Threw (Fault e) \<and> store (signOut ev d rq) = d \<and>
            cookie_ops (signOut ev d rq) = [])"
proof (intro conjI impI)
  assume h: "jwt_verify ev t = Inr cl \<and>
             findOne (\<lambda>u. username u = c_username cl) (users d) = Some u"
  then have ver: "jwt_verify ev t = Inr cl"
    and fnd: "findOne (\<lambda>u. username u = c_username cl) (users d) = Some u" by simp_all
  show "reply (signOut ev d rq) = Replied signed_out"
    using tok ver fnd by (simp add: signOut_def Let_def)
  show "status signed_out = 200" by (simp add: signed_out_def)
  show "cookie_ops (signOut ev d rq)
          = [ClearCookie ''act'', ClearCookie ''rft'', ClearCookie ''_csrf'',
             ClearCookie ''XSRF-TOKEN'']"
    using tok ver fnd by (simp add: signOut_def Let_def clear_all_def)
  have st: "users (store (signOut ev d rq))
      = updateOne_refreshTokens (c_username cl)
          (filter (\<lambda>r. r \<noteq> t) (refreshTokens u)) (users d)"
    using tok ver fnd by (simp add: signOut_def Let_def)
  have "findOne (\<lambda>u. username u = c_username cl) (users (store (signOut ev d rq)))
          = Some (u\<lparr>refreshTokens := filter (\<lambda>r. r \<noteq> t) (refreshTokens u)\<rparr>)"
    unfolding st by (rule findOne_updateOne [OF fnd])
  then show "\<exists>u'. findOne (\<lambda>u. username u = c_username cl) (users (store (signOut ev d rq)))
                    = Some u' \<and> t \<notin> set (refreshTokens u')"
    by simp
next
  assume ver: "jwt_verify ev t = Inl e"
  show "reply (signOut ev d rq) = Threw (Fault e)"
    using tok ver by (simp add: signOut_def Let_def failed_def)
  show "store (signOut ev d rq) = d"
    using tok ver by (simp add: signOut_def Let_def failed_def)
  show "cookie_ops (signOut ev d rq) = []"
    using tok ver by (simp add: signOut_def Let_def failed_def)
qed

theorem signOut_verified_token_witness:
  "receivedRefreshToken (rq0\<lparr>cookie_rft := ''rft.johndoe.phone''\<rparr>) = ''rft.johndoe.phone'' \<and>
   jwt_verify demo_env ''rft.johndoe.phone'' = Inr (named ''johndoe'') \<and>
   findOne (\<lambda>u. username u = c_username (named ''johndoe'')) (users demo_db) = Some johndoe \<and>
   reply (signOut demo_env demo_db (rq0\<lparr>cookie_rft := ''rft.johndoe.phone''\<rparr>))
     = Replied signed_out \<and>
   jwt_verify demo_env ''rft.johndoe.old'' = Inl ''TokenExpiredError'' \<and>
   reply (signOut demo_env demo_db (rq0\<lparr>cookie_rft := ''rft.johndoe.old''\<rparr>))
     = Threw (Fault ''TokenExpiredError'')"
proof -
  have a: "receivedRefreshToken (rq0\<lparr>cookie_rft := ''rft.johndoe.phone''\<rparr>) = ''rft.johndoe.phone''"
    by (simp add: receivedRefreshToken_def js_or_def rq0_def)
  have a': "receivedRefreshToken (rq0\<lparr>cookie_rft := ''rft.johndoe.old''\<rparr>) = ''rft.johndoe.old''"
    by (simp add: receivedRefreshToken_def js_or_def rq0_def)
  have c: "jwt_verify demo_env ''rft.johndoe.phone'' = Inr (named ''johndoe'')"
    by (simp add: demo_env_def demo_verify_def)
  have c': "jwt_verify demo_env ''rft.johndoe.old'' = Inl ''TokenExpiredError''"
    by (simp add: demo_env_def demo_verify_def)
  have e: "findOne (\<lambda>u. username u = c_username (named ''johndoe'')) (users demo_db) = Some johndoe"
    by (simp add: findOne_def demo_db_def johndoe_def named_def)
  show ?thesis
    using a c c' e
      signOut_verified_token [OF a, where ev = demo_env and cl = "named ''johndoe''"
                                and d = demo_db and u = johndoe]
      signOut_verified_token [OF a', where ev = demo_env and e = "''TokenExpiredError''"
                                and d = demo_db]
    by simp
qed

text \<open>
  C8, as stated, at a token that does not verify. The allowlist of \<open>johndoe\<close> holds the
  expired token among two others; presented at sign-out it is not removed, and the users
  are as before.
\<close>

theorem signOut_keeps_expired_token:
  "users demo_db = [johndoe, janedoe] \<and>
   refreshTokens johndoe = [''rft.johndoe.old'', ''rft.johndoe'', ''rft.johndoe.phone''] \<and>
   receivedRefreshToken (rq0\<lparr>body_rft := ''rft.johndoe.old''\<rparr>) = ''rft.johndoe.old'' \<and>
   users (store (signOut demo_env demo_db (rq0\<lparr>body_rft := ''rft.johndoe.old''\<rparr>)))
     = [johndoe, janedoe]"
  by (simp add: signOut_def receivedRefreshToken_def js_or_def failed_def
        demo_env_def demo_verify_def demo_db_def rq0_def johndoe_def)

text \<open>
  C8, amended. For every request whose refresh token \<^verbatim>\<open>jwt.verify\<close> accepts, and for the
  stored user the decoded username selects, sign-out changes that one document only, and
  in it only \<^verbatim>\<open>refreshTokens\<close>, which becomes the old list without the entries equal to the
  presented token: every other token stays, in order. The other users, the socials and the
  todos are as before.
\<close>

theorem signOut_frame:
  assumes tok: "receivedRefreshToken rq = t" "t \<noteq> []"
      and ver: "jwt_verify ev t = Inr cl"
      and fnd: "findOne (\<lambda>u. username u = c_username cl) (users d) = Some u"
  shows "\<exists>pre post.
           users d = pre @ u # post \<and> (\<forall>v\<in>set pre. username v \<noteq> username u) \<and>
           users (store (signOut ev d rq))
             = pre @ u\<lparr>refreshTokens := filter (\<lambda>r. r \<noteq> t) (refreshTokens u)\<rparr> # post \<and>
           socials (store (signOut ev d rq)) = socials d \<and>
           todos (store (signOut ev d rq)) = todos d"
proof -
  have nm: "username u = c_username cl"
    using findOne_Some_holds [OF fnd] by simp
  have st: "store (signOut ev d rq)
      = d\<lparr>users := updateOne_refreshTokens (c_username cl)
                      (filter (\<lambda>r. r \<noteq> t) (refreshTokens u)) (users d)\<rparr>"
    using tok ver fnd by (simp add: signOut_def Let_def)
  from updateOne_splits [OF fnd, of "filter (\<lambda>r. r \<noteq> t) (refreshTokens u)"]
  obtain pre post where
    h: "users d = pre @ u # post" "\<forall>v\<in>set pre. username v \<noteq> c_username cl"
       "updateOne_refreshTokens (c_username cl) (filter (\<lambda>r. r \<noteq> t) (refreshTokens u)) (users d)
          = pre @ u\<lparr>refreshTokens := filter (\<lambda>r. r \<noteq> t) (refreshTokens u)\<rparr> # post"
    by blast
  have "users d = pre @ u # post \<and> (\<forall>v\<in>set pre. username v \<noteq> username u) \<and>
        users (store (signOut ev d rq))
          = pre @ u\<lparr>refreshTokens := filter (\<lambda>r. r \<noteq> t) (refreshTokens u)\<rparr> # post \<and>
        socials (store (signOut ev d rq)) = socials d \<and>
        todos (store (signOut ev d rq)) = todos d"
    using h nm st by simp
  then show ?thesis by blast
qed

theorem signOut_frame_witness:
  "receivedRefreshToken (rq0\<lparr>signed_rft := ''rft.johndoe''\<rparr>) = ''rft.johndoe'' \<and>
   jwt_verify demo_env ''rft.johndoe'' = Inr (named ''johndoe'') \<and>
   findOne (\<lambda>u. username u = c_username (named ''johndoe'')) (users demo_db) = Some johndoe \<and>
   users (store (signOut demo_env demo_db (rq0\<lparr>signed_rft := ''rft.johndoe''\<rparr>)))
     = [johndoe\<lparr>refreshTokens := [''rft.johndoe.old'', ''rft.johndoe.phone'']\<rparr>, janedoe]"
proof -
  have a: "receivedRefreshToken (rq0\<lparr>signed_rft := ''rft.johndoe''\<rparr>) = ''rft.johndoe''"
    by (simp add: receivedRefreshToken_def js_or_def rq0_def)
  have b: "''rft.johndoe'' \<noteq> []" by simp
  have c: "jwt_verify demo_env ''rft.johndoe'' = Inr (named ''johndoe'')"
    by (simp add: demo_env_def demo_verify_def)
  have e: "findOne (\<lambda>u. username u = c_username (named ''johndoe'')) (users demo_db) = Some johndoe"
    by (simp add: findOne_def demo_db_def johndoe_def named_def)
  from signOut_frame [OF a b c e] obtain pre post where
    h: "users demo_db = pre @ johndoe # post" "\<forall>v\<in>set pre. username v \<noteq> username johndoe"
       "users (store (signOut demo_env demo_db (rq0\<lparr>signed_rft := ''rft.johndoe''\<rparr>)))
          = pre @ johndoe\<lparr>refreshTokens := filter (\<lambda>r. r \<noteq> ''rft.johndoe'') (refreshTokens johndoe)\<rparr> # post"
    by blast
  have "pre = []"
  proof (cases pre)
    case Nil then show ?thesis .
  next
    case (Cons x xs)
    with h(1) have "x = johndoe" by (simp add: demo_db_def)
    with h(2) Cons show ?thesis by simp
  qed
  with h(1) have "post = [janedoe]" by (simp add: demo_db_def)
  have f: "filter (\<lambda>r. r \<noteq> ''rft.johndoe'') (refreshTokens johndoe) = [''rft.johndoe.old'', ''rft.johndoe.phone'']"
    by (simp add: johndoe_def)
  show ?thesis using a c e h(3) \<open>pre = []\<close> \<open>post = [janedoe]\<close> f by simp
qed

section \<open>Refresh-token rotation\<close>





text \<open>
  When the signer of the rotation gives the very string that is presented, the token
  appended is still another one, and the replay fails all the same.
\<close>

lemma rotate_same_signer_string:
  "refreshToken (projr (snd (handleRefreshToken demo_env demo_db ''rft.johndoe'')))
     = ''rft.johndoe++++++++++++++++++'' \<and>
   snd (handleRefreshToken demo_env
          (fst (handleRefreshToken demo_env demo_db ''rft.johndoe'')) ''rft.johndoe'')
     = Inl (RefreshTokenError ''token not in allowlist'')"
  by (simp add: handleRefreshToken_def findOne_def user_claims_def newly_minted_def Let_def
        demo_defs)

section \<open>Sign-up\<close>

text \<open>
  The handler always answers: the document \<^verbatim>\<open>findOne\<close> returns has the username or the
  email of the request, so one of the two comparisons holds.
\<close>

lemma signUp_answers: "reply (signUp ev d rq) \<noteq> Hung"
proof (cases "findOne_among (pick ev)
                (\<lambda>u. username u = body_username rq \<or> email u = body_email rq) (users d)")
  case None
  then show ?thesis
    by (simp add: signUp_def Let_def failed_def split: prod.splits)
next
  case (Some u)
  from findOne_among_Some_holds [OF Some]
  have "username u = body_username rq \<or> email u = body_email rq" by simp
  with Some show ?thesis
    by (auto simp: signUp_def Let_def failed_def)
qed

text \<open>
  C7, as stated, at a request whose username is that of the stored user \<open>johndoe\<close> and
  whose first name is empty: the validation fails first, and the error is a
  \<open>ValidationError\<close>, not an \<open>AlreadyExistsError\<close>.
\<close>

theorem signUp_invalid_input_validation_error:
  "users demo_db = [johndoe, janedoe] \<and> username johndoe = ''johndoe'' \<and>
   reply (signUp demo_env demo_db
            (rq0\<lparr>body_firstName := [], body_username := ''johndoe'',
                 body_email := ''new@doe.com'', body_password := ''secret''\<rparr>))
     = Threw (ValidationError ''Failed to sign up, please correct user information!''
               [(''firstName'', ''First name cannot be empty!'')])"
  by (simp add: signUp_def failed_def Let_def demo_defs)

text \<open>
  C7, amended. For every sign-up request that passes the four validators and whose username
  or email is that of a stored user, sign-up fails with \<open>AlreadyExistsError\<close>, creates no
  user and sets no cookie. The error reports the collision of the document the lookup
  returns, which has the username or the email: the username when it has the username, the
  email otherwise. So a request with a fresh username and a taken email reports the email,
  and a request with a taken username reports the username unless a stored user with
  another username has the email.
\<close>

theorem signUp_collision:
  assumes valid: "validate_firstName ev (body_firstName rq) = None"
                 "validate_username ev (body_username rq) = None"
                 "validate_email ev (body_email rq) = None"
                 "validate_password ev (body_password rq) = None"
      and hit: "\<exists>v\<in>set (users d). username v = body_username rq \<or> email v = body_email rq"
  shows "\<exists>u. findOne_among (pick ev)
                (\<lambda>u. username u = body_username rq \<or> email u = body_email rq) (users d)
                = Some u \<and>
             u \<in> set (users d) \<and>
             (username u = body_username rq \<or> email u = body_email rq) \<and>
             reply (signUp ev d rq)
               = Threw (AlreadyExistsError
                   (if username u = body_username rq then ''Username isn't available.''
                    else ''Email isn't available.'')) \<and>
             store (signUp ev d rq) = d \<and> cookie_ops (signUp ev d rq) = [] \<and>
             ((\<forall>v\<in>set (users d). username v \<noteq> body_username rq) \<longrightarrow>
                reply (signUp ev d rq) = Threw (AlreadyExistsError ''Email isn't available.'')) \<and>
             ((\<forall>v\<in>set (users d). email v = body_email rq \<longrightarrow> username v = body_username rq) \<longrightarrow>
                reply (signUp ev d rq)
                  = Threw (AlreadyExistsError ''Username isn't available.''))"
proof -
  let ?P = "\<lambda>u. username u = body_username rq \<or> email u = body_email rq"
  from hit have "findOne_among (pick ev) ?P (users d) \<noteq> None"
    by (simp add: findOne_among_None_iff)
  then obtain u where fnd: "findOne_among (pick ev) ?P (users d) = Some u" by blast
  have m: "username u = body_username rq \<or> email u = body_email rq" and mem: "u \<in> set (users d)"
    using findOne_among_Some_holds [OF fnd] by simp_all
  have r: "reply (signUp ev d rq)
           = Threw (AlreadyExistsError
               (if username u = body_username rq then ''Username isn't available.''
                else ''Email isn't available.''))"
    using valid fnd m by (auto simp: signUp_def Let_def failed_def)
  have s: "store (signUp ev d rq) = d" "cookie_ops (signUp ev d rq) = []"
    using valid fnd m by (auto simp: signUp_def Let_def failed_def)
  have e: "(\<forall>v\<in>set (users d). username v \<noteq> body_username rq) \<longrightarrow>
            reply (signUp ev d rq) = Threw (AlreadyExistsError ''Email isn't available.'')"
    using r mem by auto
  have n: "(\<forall>v\<in>set (users d). email v = body_email rq \<longrightarrow> username v = body_username rq) \<longrightarrow>
            reply (signUp ev d rq) = Threw (AlreadyExistsError ''Username isn't available.'')"
    using r m mem by auto
  from fnd mem m r s e n show ?thesis by blast
qed

theorem signUp_collision_witness:
  "validate_firstName demo_env ''Jon'' = None \<and> validate_username demo_env ''johndoe'' = None \<and>
   validate_email demo_env ''jon@doe.com'' = None \<and> validate_password demo_env ''secret'' = None \<and>
   johndoe \<in> set (users demo_db) \<and> username johndoe = ''johndoe'' \<and>
   reply (signUp demo_env demo_db
            (rq0\<lparr>body_firstName := ''Jon'', body_username := ''johndoe'',
                 body_email := ''jon@doe.com'', body_password := ''secret''\<rparr>))
     = Threw (AlreadyExistsError ''Username isn't available.'') \<and>
   store (signUp demo_env demo_db
            (rq0\<lparr>body_firstName := ''Jon'', body_username := ''johndoe'',
                 body_email := ''jon@doe.com'', body_password := ''secret''\<rparr>)) = demo_db \<and>
   janedoe \<in> set (users demo_db) \<and> email janedoe = ''jane@doe.com'' \<and>
   reply (signUp demo_env demo_db
            (rq0\<lparr>body_firstName := ''Jon'', body_username := ''jondoe'',
                 body_email := ''jane@doe.com'', body_password := ''secret''\<rparr>))
     = Threw (AlreadyExistsError ''Email isn't available.'')"
proof -
  let ?r = "rq0\<lparr>body_firstName := ''Jon'', body_username := ''johndoe'',
                 body_email := ''jon@doe.com'', body_password := ''secret''\<rparr>"
  let ?q = "rq0\<lparr>body_firstName := ''Jon'', body_username := ''jondoe'',
                 body_email := ''jane@doe.com'', body_password := ''secret''\<rparr>"
  have v: "validate_firstName demo_env (body_firstName ?r) = None"
          "validate_username demo_env (body_username ?r) = None"
          "validate_email demo_env (body_email ?r) = None"
          "validate_password demo_env (body_password ?r) = None"
    by (simp_all add: demo_env_def required_def rq0_def)
  have w: "validate_firstName demo_env (body_firstName ?q) = None"
          "validate_username demo_env (body_username ?q) = None"
          "validate_email demo_env (body_email ?q) = None"
          "validate_password demo_env (body_password ?q) = None"
    by (simp_all add: demo_env_def required_def rq0_def)
  have hr: "\<exists>v\<in>set (users demo_db). username v = body_username ?r \<or> email v = body_email ?r"
    by (simp add: demo_defs)
  have hq: "\<exists>v\<in>set (users demo_db). username v = body_username ?q \<or> email v = body_email ?q"
    by (simp add: demo_defs)
  have only: "\<forall>v\<in>set (users demo_db). email v = body_email ?r \<longrightarrow> username v = body_username ?r"
    by (simp add: demo_defs)
  have fresh: "\<forall>v\<in>set (users demo_db). username v \<noteq> body_username ?q"
    by (simp add: demo_defs)
  have a: "reply (signUp demo_env demo_db ?r)
             = Threw (AlreadyExistsError ''Username isn't available.'')"
          "store (signUp demo_env demo_db ?r) = demo_db"
    using signUp_collision [OF v hr] only by blast+
  have b: "reply (signUp demo_env demo_db ?q)
             = Threw (AlreadyExistsError ''Email isn't available.'')"
    using signUp_collision [OF w hq] fresh by blast
  have c: "johndoe \<in> set (users demo_db)" "username johndoe = ''johndoe''"
          "janedoe \<in> set (users demo_db)" "email janedoe = ''jane@doe.com''"
    by (simp_all add: demo_db_def johndoe_def janedoe_def)
  show ?thesis
    using v a b c by (simp add: rq0_def)
qed

section \<open>Local sign-in\<close>

text \<open>
  C2. The claim is that a wrong password leaves the persisted user unchanged, tokens being
  minted and appended on a match only. Here \<open>janedoe\<close>, whose allowlist is empty, signs in
  with a password that \<^verbatim>\<open>compareSync\<close> rejects: the answer is the \<open>BadRequestError\<close>, yet
  \<^verbatim>\<open>generateUserTokens\<close> has run before the comparison and her allowlist now holds a
  refresh token.
\<close>

theorem signIn_wrong_password_appends_token:
  "compareSync demo_env ''doejane'' (password janedoe) = Some False \<and>
   reply (signIn demo_env demo_db
            (rq0\<lparr>body_userIdentifier := ''janedoe'', body_password := ''doejane''\<rparr>))
     = Threw (BadRequestError ''Wrong username or password!'') \<and>
   refreshTokens janedoe = [] \<and>
   users (store (signIn demo_env demo_db
            (rq0\<lparr>body_userIdentifier := ''janedoe'', body_password := ''doejane''\<rparr>)))
     = [johndoe, janedoe\<lparr>refreshTokens := [''rft.janedoe'']\<rparr>]"
  by (simp add: signIn_def generateUserTokens_def pushRefreshToken_def user_claims_def
        findOne_def failed_def Let_def demo_defs)

text \<open>
  In general, once the request is valid and a user is found, the store the handler leaves is
  the one \<^verbatim>\<open>generateUserTokens\<close> returned, whatever the comparison says.
\<close>

lemma signIn_store_before_comparison:
  assumes "validate_userIdentifier ev (body_userIdentifier rq) = None"
          "validate_password ev (body_password rq) = None"
      and "findOne (\<lambda>u. username u = body_userIdentifier rq \<or> email u = body_userIdentifier rq)
             (users d) = Some u"
  shows "store (signIn ev d rq) = fst (generateUserTokens ev d (user_claims u) SignInP)"
  using assms
  by (simp add: signIn_def Let_def failed_def split: prod.splits option.splits bool.splits)

text \<open>
  C6, as stated, at a request whose identifier matches no stored user and whose password is
  empty: the validation fails first, and the error is a \<open>ValidationError\<close>, not the
  \<open>NotFoundError\<close>.
\<close>

theorem signIn_invalid_input_validation_error:
  "findOne (\<lambda>u. username u = ''doejohn'' \<or> email u = ''doejohn'') (users demo_db) = None \<and>
   reply (signIn demo_env demo_db
            (rq0\<lparr>body_userIdentifier := ''doejohn'', body_password := []\<rparr>))
     = Threw (ValidationError ''Failed to sign in, please correct user information!''
               [(''password'', ''Password cannot be empty!'')])"
  by (simp add: signIn_def findOne_def failed_def Let_def demo_defs)

text \<open>
  C6, amended. For every sign-in request that passes the two validators: when the identifier
  is no stored user's username or email, sign-in fails with \<open>NotFoundError\<close>; when it
  finds a user and \<^verbatim>\<open>compareSync\<close> rejects the password, it fails with \<open>BadRequestError\<close>
  and the one message \<^verbatim>\<open>Wrong username or password!\<close>.
\<close>

theorem signIn_errors:
  assumes valid: "validate_userIdentifier ev (body_userIdentifier rq) = None"
                 "validate_password ev (body_password rq) = None"
  shows "((\<forall>u\<in>set (users d). username u \<noteq> body_userIdentifier rq \<and>
                               email u \<noteq> body_userIdentifier rq) \<longrightarrow>
            reply (signIn ev d rq)
              = Threw (NotFoundError ''User not found, please sign up first!'')) \<and>
         (findOne (\<lambda>u. username u = body_userIdentifier rq \<or> email u = body_userIdentifier rq)
             (users d) = Some u \<and>
          compareSync ev (body_password rq) (password u) = Some False \<longrightarrow>
            reply (signIn ev d rq) = Threw (BadRequestError ''Wrong username or password!''))"
proof (intro conjI impI)
  assume "\<forall>u\<in>set (users d). username u \<noteq> body_userIdentifier rq \<and>
                               email u \<noteq> body_userIdentifier rq"
  then have "findOne (\<lambda>u. username u = body_userIdentifier rq \<or> email u = body_userIdentifier rq)
               (users d) = None"
    by (simp add: findOne_None_iff)
  with valid show "reply (signIn ev d rq)
                     = Threw (NotFoundError ''User not found, please sign up first!'')"
    by (simp add: signIn_def Let_def failed_def)
next
  assume h: "findOne (\<lambda>u. username u = body_userIdentifier rq \<or> email u = body_userIdentifier rq)
               (users d) = Some u \<and>
             compareSync ev (body_password rq) (password u) = Some False"
  with valid show "reply (signIn ev d rq) = Threw (BadRequestError ''Wrong username or password!'')"
    by (simp add: signIn_def Let_def failed_def split: prod.splits)
qed

theorem signIn_errors_witness:
  "validate_userIdentifier demo_env ''doejohn'' = None \<and>
   validate_password demo_env ''doejohn'' = None \<and>
   findOne (\<lambda>u. username u = ''doejohn'' \<or> email u = ''doejohn'') (users demo_db) = None \<and>
   reply (signIn demo_env demo_db
            (rq0\<lparr>body_userIdentifier := ''doejohn'', body_password := ''doejohn''\<rparr>))
     = Threw (NotFoundError ''User not found, please sign up first!'') \<and>
   findOne (\<lambda>u. username u = ''johndoe'' \<or> email u = ''johndoe'') (users demo_db) = Some johndoe \<and>
   compareSync demo_env ''doejohn'' (password johndoe) = Some False \<and>
   reply (signIn demo_env demo_db
            (rq0\<lparr>body_userIdentifier := ''johndoe'', body_password := ''doejohn''\<rparr>))
     = Threw (BadRequestError ''Wrong username or password!'')"
proof -
  let ?r1 = "rq0\<lparr>body_userIdentifier := ''doejohn'', body_password := ''doejohn''\<rparr>"
  let ?r2 = "rq0\<lparr>body_userIdentifier := ''johndoe'', body_password := ''doejohn''\<rparr>"
  have v1: "validate_userIdentifier demo_env (body_userIdentifier ?r1) = None"
           "validate_password demo_env (body_password ?r1) = None"
    by (simp_all add: demo_env_def required_def rq0_def)
  have v2: "validate_userIdentifier demo_env (body_userIdentifier ?r2) = None"
           "validate_password demo_env (body_password ?r2) = None"
    by (simp_all add: demo_env_def required_def rq0_def)
  have n: "\<forall>u\<in>set (users demo_db). username u \<noteq> body_userIdentifier ?r1 \<and>
                                    email u \<noteq> body_userIdentifier ?r1"
    by (simp add: demo_defs)
  have f: "findOne (\<lambda>u. username u = body_userIdentifier ?r2 \<or> email u = body_userIdentifier ?r2)
             (users demo_db) = Some johndoe"
    by (simp add: findOne_def demo_defs)
  have c: "compareSync demo_env (body_password ?r2) (password johndoe) = Some False"
    by (simp add: demo_env_def johndoe_def rq0_def)
  have n': "findOne (\<lambda>u. username u = ''doejohn'' \<or> email u = ''doejohn'') (users demo_db) = None"
    by (simp add: findOne_def demo_defs)
  show ?thesis
    using v1 v2 n n' f c
      signIn_errors [OF v1, of demo_db johndoe]
      signIn_errors [OF v2, of demo_db johndoe]
    by (simp add: rq0_def)
qed

section \<open>Google sign-in\<close>

text \<open>
  C10. For every Google sign-in whose verified email is that of no stored user, one user is
  created, whose username is the \<^verbatim>\<open>sub\<close> of the verified payload and whose
  \<^verbatim>\<open>isUsernameSet\<close> is true (and \<^verbatim>\<open>isPasswordSet\<close> false): the same flag value as that of
  the user a successful local sign-up creates with the username the request chose.
\<close>

theorem googleSignIn_new_user_username_is_sub:
  assumes ver: "verifyIdToken ev (body_googleIdToken rq) = Inr (Some p)"
      and new: "\<forall>u\<in>set (users d). email u \<noteq> g_email p"
  shows "\<exists>nu. users (store (googleSignIn ev d rq)) = users d @ [nu] \<and>
              username nu = sub p \<and> isUsernameSet nu = True \<and> isPasswordSet nu = False \<and>
              (\<forall>r. reply (signUp ev d rq') = Replied r \<longrightarrow>
                 (\<exists>su. users (store (signUp ev d rq')) = users d @ [su] \<and>
                       username su = body_username rq' \<and>
                       isUsernameSet su = isUsernameSet nu))"
proof -
  from new have none: "findOne (\<lambda>u. email u = g_email p) (users d) = None"
    by (simp add: findOne_None_iff)
  let ?nu = "\<lparr>uid = length (users d), firstName = given_name p, lastName = family_name p,
              isUsernameSet = True, username = sub p, email = g_email p,
              isPasswordSet = False, password = None, verified = False,
              profileImageURL = picture p,
              refreshTokens = [sign ev RefreshT
                 \<lparr>c_firstName = given_name p, c_lastName = family_name p,
                  c_username = sub p, c_email = g_email p\<rparr>],
              apiKey = createToken_apiKey ev (sub p) (g_email p)\<rparr>"
  have g: "users (store (googleSignIn ev d rq)) = users d @ [?nu]"
    using ver none by (simp add: googleSignIn_def generateUserTokens_def Let_def)
  have s: "\<forall>r. reply (signUp ev d rq') = Replied r \<longrightarrow>
             (\<exists>su. users (store (signUp ev d rq')) = users d @ [su] \<and>
                   username su = body_username rq' \<and> isUsernameSet su = True)"
    by (auto simp: signUp_def generateUserTokens_def Let_def failed_def
          split: if_splits option.splits)
  show ?thesis
    using g s by (intro exI [of _ ?nu]) simp
qed

theorem googleSignIn_new_user_username_is_sub_witness:
  "verifyIdToken demo_env (body_googleIdToken (rq0\<lparr>body_googleIdToken := ''google-id-token''\<rparr>))
     = Inr (Some demo_google) \<and>
   (\<exists>r. reply (signUp demo_env demo_db
                  (rq0\<lparr>body_firstName := ''Ann'', body_username := ''annlee'',
                       body_email := ''ann@lee.com'', body_password := ''secret''\<rparr>))
          = Replied r) \<and>
   (\<exists>nu su. users (store (googleSignIn demo_env demo_db
                         (rq0\<lparr>body_googleIdToken := ''google-id-token''\<rparr>)))
           = [johndoe, janedoe, nu] \<and>
         username nu = ''1100223344'' \<and> isUsernameSet nu \<and>
         users (store (signUp demo_env demo_db
                  (rq0\<lparr>body_firstName := ''Ann'', body_username := ''annlee'',
                       body_email := ''ann@lee.com'', body_password := ''secret''\<rparr>)))
           = [johndoe, janedoe, su] \<and>
         username su = ''annlee'' \<and> isUsernameSet su)"
proof -
  let ?rq = "rq0\<lparr>body_googleIdToken := ''google-id-token''\<rparr>"
  let ?rs = "rq0\<lparr>body_firstName := ''Ann'', body_username := ''annlee'',
                 body_email := ''ann@lee.com'', body_password := ''secret''\<rparr>"
  have v: "verifyIdToken demo_env (body_googleIdToken ?rq) = Inr (Some demo_google)"
    by (simp add: demo_env_def rq0_def)
  have n: "\<forall>u\<in>set (users demo_db). email u \<noteq> g_email demo_google"
    by (simp add: demo_defs)
  have u: "users demo_db = [johndoe, janedoe]" by (simp add: demo_db_def)
  have s: "sub demo_google = ''1100223344''" by (simp add: demo_google_def)
  have b: "body_username ?rs = ''annlee''" by (simp add: rq0_def)
  have r: "\<exists>r. reply (signUp demo_env demo_db ?rs) = Replied r"
    by (simp add: signUp_def generateUserTokens_def findOne_among_def Let_def demo_defs)
  then obtain r where r': "reply (signUp demo_env demo_db ?rs) = Replied r" by blast
  from googleSignIn_new_user_username_is_sub [OF v n, of ?rs] r'
  obtain nu su where
    "users (store (googleSignIn demo_env demo_db ?rq)) = users demo_db @ [nu]"
    "username nu = sub demo_google" "isUsernameSet nu = True"
    "users (store (signUp demo_env demo_db ?rs)) = users demo_db @ [su]"
    "username su = body_username ?rs" "isUsernameSet su = isUsernameSet nu"
    by blast
  with u s b have
    "users (store (googleSignIn demo_env demo_db ?rq)) = [johndoe, janedoe, nu] \<and>
     username nu = ''1100223344'' \<and> isUsernameSet nu \<and>
     users (store (signUp demo_env demo_db ?rs)) = [johndoe, janedoe, su] \<and>
     username su = ''annlee'' \<and> isUsernameSet su" by simp
  with v r show ?thesis by blast
qed

section \<open>The user object of the payloads\<close>















end
